theory Spec2Isabelle
  imports Main "HOL-Library.AList"
begin

section \<open>The text model resolver service\<close>

text \<open>
  A shallow embedding of \<^verbatim>\<open>ResourceModelCollection\<close>, \<^verbatim>\<open>ModelChangeEventEmitter\<close> and
  \<^verbatim>\<open>TextModelResolverService\<close>. Execution is single-threaded and cooperative, so every
  method is one atomic step on an explicit state; a \<^verbatim>\<open>TPromise\<close> is represented by the
  outcome it settles with (\<^verbatim>\<open>then\<close> runs its first callback on a fulfilled promise and its
  second, when there is one, on a rejected promise, which it passes on otherwise). Objects
  compared by identity in the source (content providers, savers, text models) carry a
  number as their identity.
\<close>

subsection \<open>Data\<close>

text \<open>A resource: \<^verbatim>\<open>resource.scheme\<close> and the remainder of the URI.\<close>

datatype URI = URI (uri_scheme: string) (uri_rest: string)

text \<open>An \<^verbatim>\<open>IModel\<close> of the model service: its identity and \<^verbatim>\<open>model.uri\<close>.\<close>

datatype IModel = IModel (model_id: nat) (uri: URI)

text \<open>The editor models handed out, by class (\<^verbatim>\<open>instanceof TextFileEditorModel\<close> is a case
  distinction).\<close>

datatype ITextEditorModel =
    TextFileEditorModel URI
  | ResourceEditorModel URI
  | UntitledEditorModel URI

text \<open>A settled promise: fulfilled with a value, or rejected with the error passed to
  \<^verbatim>\<open>TPromise.wrapError\<close>.\<close>

datatype 'a TPromise = Fulfilled 'a | Rejected string

type_synonym ITextModelContentProvider = nat
type_synonym ITextModelSaver = nat

text \<open>\<^verbatim>\<open>ITextModelSaveOptions\<close> has one optional field, \<^verbatim>\<open>encoding\<close>.\<close>

type_synonym ITextModelSaveOptions = "string option"

datatype StateChangeType = Dirty | Reverted | Saving | Saved

datatype ITextModelStateChangeEvent =
  StateChangeEvent (event_type: StateChangeType) (event_resource: URI)

text \<open>
  The collaborators the service is constructed with, as the outcomes of their calls:
  \<^verbatim>\<open>provider.provideTextContent(resource)\<close> resolves to a model or to nothing,
  \<^verbatim>\<open>saver.saveTextContent(resource, model, options)\<close> succeeds or fails, and so do
  \<^verbatim>\<open>textFileService.models.loadOrCreate\<close> and \<^verbatim>\<open>untitledEditorService.loadOrCreate\<close>.
  A content provider whose promise is rejected is not represented: how the sequencing
  helper \<^verbatim>\<open>first\<close> treats it is not described. What a collaborator does to the service
  while it is called (a provider that creates a model, a saver that changes one) is a
  step of its own.
\<close>

record Collaborators =
  provideTextContent :: "ITextModelContentProvider \<Rightarrow> URI \<Rightarrow> IModel option"
  saveTextContent ::
    "ITextModelSaver \<Rightarrow> URI \<Rightarrow> IModel \<Rightarrow> ITextModelSaveOptions option \<Rightarrow> unit TPromise"
  loadOrCreate :: "URI \<Rightarrow> ITextEditorModel TPromise"
  untitledLoadOrCreate :: "URI \<Rightarrow> ITextEditorModel TPromise"

text \<open>Modelled from the spec: the constants \<^verbatim>\<open>network.Schemas.file\<close> and
  \<^verbatim>\<open>UNTITLED_SCHEMA\<close>, declared outside the sources at hand; the glossary names the schemes
  file and untitled.\<close>

definition Schemas_file :: string where
  "Schemas_file = ''file''"

definition UNTITLED_SCHEMA :: string where
  "UNTITLED_SCHEMA = ''untitled''"

subsection \<open>ResourceModelCollection\<close>

text \<open>What the collection asks of its collaborators, in the order it happens.\<close>

datatype CollectionCall =
    ProvideTextContent ITextModelContentProvider URI
  | ConsoleError URI
  | LoadOrCreate URI
  | DisposeFileModel ITextEditorModel
  | DisposeModel ITextEditorModel

record ReferenceEntry =
  counter :: nat
  object :: "ITextEditorModel TPromise"

text \<open>
  \<^verbatim>\<open>providers\<close> is the per-scheme registry; \<^verbatim>\<open>references\<close>, \<^verbatim>\<open>liveHandles\<close> and
  \<^verbatim>\<open>nextHandle\<close> are the state of the inherited \<^verbatim>\<open>ReferenceCollection\<close>. The source keys
  the references by \<^verbatim>\<open>resource.toString()\<close> and reads the resource back with
  \<^verbatim>\<open>URI.parse(key)\<close>; here the key is the resource itself.
\<close>

record ResourceModelCollection =
  providers :: "string \<rightharpoonup> ITextModelContentProvider list"
  references :: "URI \<rightharpoonup> ReferenceEntry"
  liveHandles :: "nat set"
  nextHandle :: nat
  calls :: "CollectionCall list"

definition new_ResourceModelCollection :: ResourceModelCollection where
  "new_ResourceModelCollection =
     \<lparr>providers = Map.empty, references = Map.empty, liveHandles = {}, nextHandle = 0,
      calls = []\<rparr>"

text \<open>\<^verbatim>\<open>this.providers[scheme] || []\<close>: the list of a scheme, empty when it has none.\<close>

definition providersFor :: "ResourceModelCollection \<Rightarrow> string \<Rightarrow> ITextModelContentProvider list" where
  "providersFor c scheme = (case providers c scheme of None \<Rightarrow> [] | Some array \<Rightarrow> array)"

text \<open>\<^verbatim>\<open>array.indexOf(provider)\<close>, with \<open>None\<close> for \<open>-1\<close>.\<close>

fun indexOf :: "'a list \<Rightarrow> 'a \<Rightarrow> nat option" where
  "indexOf [] y = None"
| "indexOf (x # xs) y =
     (if x = y then Some 0 else (case indexOf xs y of None \<Rightarrow> None | Some i \<Rightarrow> Some (Suc i)))"

text \<open>\<^verbatim>\<open>array.splice(index, 1)\<close>: the array that remains.\<close>

definition splice1 :: "'a list \<Rightarrow> nat \<Rightarrow> 'a list" where
  "splice1 array index = take index array @ drop (Suc index) array"

text \<open>
  \<^verbatim>\<open>registerTextModelContentProvider\<close>: \<^verbatim>\<open>unshift\<close> puts the provider in front of the list of
  its scheme. The disposable returned closes over the scheme and the provider.
\<close>

definition rmc_registerTextModelContentProvider ::
  "ResourceModelCollection \<Rightarrow> string \<Rightarrow> ITextModelContentProvider
     \<Rightarrow> ResourceModelCollection \<times> (string \<times> ITextModelContentProvider)" where
  "rmc_registerTextModelContentProvider c scheme provider =
     (c\<lparr>providers := (providers c)(scheme \<mapsto> provider # providersFor c scheme)\<rparr>,
      (scheme, provider))"

text \<open>
  Modelled from the spec: \<^verbatim>\<open>toDisposable\<close> of \<^verbatim>\<open>vs/base/common/lifecycle\<close>, imported but not
  among the sources at hand, makes the function it is given the disposer that is returned:
  disposing the handle runs that function. Its body, from the source, is the removal by
  identity below; it finds the list of the scheme and the provider anew each time.
\<close>

definition rmc_unregister ::
  "ResourceModelCollection \<Rightarrow> string \<times> ITextModelContentProvider \<Rightarrow> ResourceModelCollection" where
  "rmc_unregister c h =
     (case providers c (fst h) of
        None \<Rightarrow> c
      | Some array \<Rightarrow>
          (case indexOf array (snd h) of
             None \<Rightarrow> c
           | Some index \<Rightarrow>
               (if splice1 array index = []
                then c\<lparr>providers := (providers c)(fst h := None)\<rparr>
                else c\<lparr>providers := (providers c)(fst h \<mapsto> splice1 array index)\<rparr>)))"

text \<open>
  Modelled from the spec: the helper \<^verbatim>\<open>first\<close> of \<^verbatim>\<open>vs/base/common/async\<close>, imported but
  not among the sources at hand. It invokes each factory in order, one after the other,
  until one returns non-empty content, and yields nothing when none does. A factory is a
  step on the state that also returns what its promise resolves to.
\<close>

fun first :: "('s \<Rightarrow> 's \<times> 'a option) list \<Rightarrow> 's \<Rightarrow> 's \<times> 'a option" where
  "first [] s = (s, None)"
| "first (factory # promiseFactories) s =
     (case factory s of
        (s', None) \<Rightarrow> first promiseFactories s'
      | (s', Some result) \<Rightarrow> (s', Some result))"

text \<open>The factory \<^verbatim>\<open>() => p.provideTextContent(resource)\<close>: the call is recorded.\<close>

definition providerFactory ::
  "Collaborators \<Rightarrow> URI \<Rightarrow> ITextModelContentProvider
     \<Rightarrow> ResourceModelCollection \<Rightarrow> ResourceModelCollection \<times> IModel option" where
  "providerFactory env resource p c =
     (c\<lparr>calls := calls c @ [ProvideTextContent p resource]\<rparr>, provideTextContent env p resource)"

definition resolveTextModelContent ::
  "Collaborators \<Rightarrow> ResourceModelCollection \<Rightarrow> URI
     \<Rightarrow> ResourceModelCollection \<times> IModel TPromise" where
  "resolveTextModelContent env c resource =
     (let factories = map (providerFactory env resource) (providersFor c (uri_scheme resource))
      in case first factories c of
           (c', None) \<Rightarrow>
             (c'\<lparr>calls := calls c' @ [ConsoleError resource]\<rparr>,
              Rejected ''resource is not available'')
         | (c', Some model) \<Rightarrow> (c', Fulfilled model))"

definition createReferencedObject ::
  "Collaborators \<Rightarrow> ResourceModelCollection \<Rightarrow> URI
     \<Rightarrow> ResourceModelCollection \<times> ITextEditorModel TPromise" where
  "createReferencedObject env c resource =
     (if uri_scheme resource = Schemas_file
      then (c\<lparr>calls := calls c @ [LoadOrCreate resource]\<rparr>, loadOrCreate env resource)
      else (case resolveTextModelContent env c resource of
              (c', Rejected err) \<Rightarrow> (c', Rejected err)
            | (c', Fulfilled model) \<Rightarrow> (c', Fulfilled (ResourceEditorModel resource))))"

text \<open>\<^verbatim>\<open>modelPromise.done(model => ...)\<close>: the callback runs only for a fulfilled promise.\<close>

definition destroyReferencedObject ::
  "ResourceModelCollection \<Rightarrow> ITextEditorModel TPromise \<Rightarrow> ResourceModelCollection" where
  "destroyReferencedObject c modelPromise =
     (case modelPromise of
        Rejected err \<Rightarrow> c
      | Fulfilled model \<Rightarrow>
          (case model of
             TextFileEditorModel r \<Rightarrow> c\<lparr>calls := calls c @ [DisposeFileModel model]\<rparr>
           | _ \<Rightarrow> c\<lparr>calls := calls c @ [DisposeModel model]\<rparr>))"

text \<open>A handle of the reference collection: the key, the identity of the handle, and the
  shared object.\<close>

record Handle =
  handle_key :: URI
  handle_id :: nat
  handle_object :: "ITextEditorModel TPromise"

text \<open>
  Modelled from the spec: \<^verbatim>\<open>ReferenceCollection.acquire\<close> of \<^verbatim>\<open>vs/base/common/lifecycle\<close>,
  which is not among the sources at hand. With no live entry for the key it creates one
  with count 1 and starts constructing the object through \<^verbatim>\<open>createReferencedObject\<close>;
  with a live entry it increments the count and shares the object of the entry.
\<close>

definition acquire ::
  "Collaborators \<Rightarrow> ResourceModelCollection \<Rightarrow> URI \<Rightarrow> ResourceModelCollection \<times> Handle" where
  "acquire env c key =
     (case references c key of
        None \<Rightarrow>
          (case createReferencedObject env c key of
             (c', obj) \<Rightarrow>
               (c'\<lparr>references := (references c')(key \<mapsto> \<lparr>counter = 1, object = obj\<rparr>),
                   liveHandles := insert (nextHandle c') (liveHandles c'),
                   nextHandle := Suc (nextHandle c')\<rparr>,
                \<lparr>handle_key = key, handle_id = nextHandle c', handle_object = obj\<rparr>))
      | Some reference \<Rightarrow>
          (c\<lparr>references := (references c)(key \<mapsto> reference\<lparr>counter := Suc (counter reference)\<rparr>),
             liveHandles := insert (nextHandle c) (liveHandles c),
             nextHandle := Suc (nextHandle c)\<rparr>,
           \<lparr>handle_key = key, handle_id = nextHandle c, handle_object = object reference\<rparr>))"

text \<open>
  Modelled from the spec: the \<^verbatim>\<open>dispose\<close> of such a handle. It decrements the count of the
  entry; at zero it removes the entry and invokes \<^verbatim>\<open>destroyReferencedObject\<close>. Disposing
  the same handle beyond the first time does nothing.
\<close>

definition disposeHandle :: "ResourceModelCollection \<Rightarrow> Handle \<Rightarrow> ResourceModelCollection" where
  "disposeHandle c h =
     (if handle_id h \<notin> liveHandles c then c
      else (let c' = c\<lparr>liveHandles := liveHandles c - {handle_id h}\<rparr>
            in case references c' (handle_key h) of
                 None \<Rightarrow> c'
               | Some reference \<Rightarrow>
                   (if counter reference - 1 = 0
                    then destroyReferencedObject
                           (c'\<lparr>references := (references c')(handle_key h := None)\<rparr>)
                           (object reference)
                    else c'\<lparr>references :=
                              (references c')(handle_key h \<mapsto>
                                 reference\<lparr>counter := counter reference - 1\<rparr>)\<rparr>)))"

text \<open>The count held on a key; no entry is no count.\<close>

definition refCount :: "ResourceModelCollection \<Rightarrow> URI \<Rightarrow> nat" where
  "refCount c key = (case references c key of None \<Rightarrow> 0 | Some reference \<Rightarrow> counter reference)"

subsection \<open>ModelChangeEventEmitter\<close>

text \<open>
  \<^verbatim>\<open>_modelListener\<close> is the \<^verbatim>\<open>Map\<close> from a model to the subscription taken on it, in
  insertion order. \<^verbatim>\<open>subscriptions\<close> are the content-change listeners this emitter has
  attached to models and that have not been disposed: they live in the models, and are
  kept here to speak about them. \<^verbatim>\<open>listening\<close> says that the registrations in
  \<^verbatim>\<open>_toDispose\<close> are live, \<^verbatim>\<open>disposed\<close> that \<^verbatim>\<open>_onDidChangeContent\<close> has been disposed.
\<close>

record ModelChangeEventEmitter =
  modelListener :: "(IModel \<times> nat) list"
  subscriptions :: "(nat \<times> IModel) list"
  nextSubscription :: nat
  listening :: bool
  disposed :: bool

definition new_ModelChangeEventEmitter :: ModelChangeEventEmitter where
  "new_ModelChangeEventEmitter =
     \<lparr>modelListener = [], subscriptions = [], nextSubscription = 0, listening = True,
      disposed = False\<rparr>"

definition onModelAdded :: "ModelChangeEventEmitter \<Rightarrow> IModel \<Rightarrow> ModelChangeEventEmitter" where
  "onModelAdded e m =
     e\<lparr>subscriptions := subscriptions e @ [(nextSubscription e, m)],
       modelListener := AList.update m (nextSubscription e) (modelListener e),
       nextSubscription := Suc (nextSubscription e)\<rparr>"

text \<open>
  Modelled from the spec: the helper \<^verbatim>\<open>dispose\<close> of \<^verbatim>\<open>vs/base/common/lifecycle\<close>, not among
  the sources at hand, detaches the listener it is given; with no listener recorded for the
  model there is nothing to detach, and \<^verbatim>\<open>delete\<close> of an absent key does nothing.
\<close>

definition onModelRemoved :: "ModelChangeEventEmitter \<Rightarrow> IModel \<Rightarrow> ModelChangeEventEmitter" where
  "onModelRemoved e m =
     (case map_of (modelListener e) m of
        None \<Rightarrow> e
      | Some subscription \<Rightarrow>
          e\<lparr>subscriptions := filter (\<lambda>s. fst s \<noteq> subscription) (subscriptions e),
            modelListener := AList.delete m (modelListener e)\<rparr>)"

definition emitter_dispose :: "ModelChangeEventEmitter \<Rightarrow> ModelChangeEventEmitter" where
  "emitter_dispose e =
     e\<lparr>listening := False,
       subscriptions :=
         filter (\<lambda>s. fst s \<notin> set (map snd (modelListener e))) (subscriptions e),
       disposed := True\<rparr>"

text \<open>The notifications of the model service; they reach the emitter while its
  registrations are live.\<close>

datatype ModelNotification = ModelAdded IModel | ModelRemoved IModel

definition notify :: "ModelChangeEventEmitter \<Rightarrow> ModelNotification \<Rightarrow> ModelChangeEventEmitter" where
  "notify e n =
     (if listening e
      then (case n of ModelAdded m \<Rightarrow> onModelAdded e m | ModelRemoved m \<Rightarrow> onModelRemoved e m)
      else e)"

definition notifyAll ::
  "ModelChangeEventEmitter \<Rightarrow> ModelNotification list \<Rightarrow> ModelChangeEventEmitter" where
  "notifyAll e ns = foldl notify e ns"

text \<open>The models in the registry after a sequence of notifications: those added and not
  removed since.\<close>

definition registryStep :: "IModel set \<Rightarrow> ModelNotification \<Rightarrow> IModel set" where
  "registryStep ms n = (case n of ModelAdded m \<Rightarrow> insert m ms | ModelRemoved m \<Rightarrow> ms - {m})"

definition registered :: "ModelNotification list \<Rightarrow> IModel set" where
  "registered ns = foldl registryStep {} ns"

text \<open>A sequence of notifications in which no model is announced as added while it is in
  the registry already, starting from the registry \<open>ms\<close>.\<close>

fun addsOnlyAbsent :: "IModel set \<Rightarrow> ModelNotification list \<Rightarrow> bool" where
  "addsOnlyAbsent ms [] = True"
| "addsOnlyAbsent ms (n # ns) =
     ((case n of ModelAdded m \<Rightarrow> m \<notin> ms | ModelRemoved m \<Rightarrow> True)
      \<and> addsOnlyAbsent (registryStep ms n) ns)"

text \<open>The listeners attached to a model.\<close>

definition listenersOf :: "ModelChangeEventEmitter \<Rightarrow> IModel \<Rightarrow> nat list" where
  "listenersOf e m = map fst (filter (\<lambda>s. snd s = m) (subscriptions e))"

text \<open>
  Modelled from the spec: \<^verbatim>\<open>Emitter\<close> of \<^verbatim>\<open>vs/base/common/event\<close>, not among the sources at
  hand; disposing it stops the unified event stream. How often the unified event fires
  when the content of a model changes: once per listener attached to the model
  (\<^verbatim>\<open>e => this._onDidChangeContent.fire(m)\<close>), and never once the emitter is disposed.
\<close>

definition firings :: "ModelChangeEventEmitter \<Rightarrow> IModel \<Rightarrow> nat" where
  "firings e m = (if disposed e then 0 else length (listenersOf e m))"

text \<open>The emitter after a sequence of notifications, from its construction on.\<close>

definition emitterAfter :: "ModelNotification list \<Rightarrow> ModelChangeEventEmitter" where
  "emitterAfter ns = notifyAll new_ModelChangeEventEmitter ns"

text \<open>
  The invariant of an emitter that tracks the models \<open>ms\<close>: it is live, the listeners
  attached are exactly the ones recorded in \<^verbatim>\<open>_modelListener\<close>, one per model and each under
  its own number, and the models recorded are \<open>ms\<close>.
\<close>

definition tracks :: "ModelChangeEventEmitter \<Rightarrow> IModel set \<Rightarrow> bool" where
  "tracks e ms \<longleftrightarrow>
     listening e \<and> \<not> disposed e
     \<and> subscriptions e = map (\<lambda>p. (snd p, fst p)) (modelListener e)
     \<and> distinct (map fst (modelListener e))
     \<and> distinct (map snd (modelListener e))
     \<and> fst ` set (modelListener e) = ms
     \<and> (\<forall>p \<in> set (modelListener e). snd p < nextSubscription e)"

subsection \<open>TextModelResolverService\<close>

text \<open>What the service does that others observe: the events fired on
  \<^verbatim>\<open>_onDidChangeState\<close> and the calls to savers, in the order they happen.\<close>

datatype ServiceEffect =
    Fire ITextModelStateChangeEvent
  | SaveTextContent ITextModelSaver URI IModel "ITextModelSaveOptions option"

text \<open>\<^verbatim>\<open>modelService\<close> is what \<^verbatim>\<open>modelService.getModel\<close> answers.\<close>

record TextModelResolverService =
  resourceModelCollection :: ResourceModelCollection
  onDidChangeModelContent :: ModelChangeEventEmitter
  modelSaver :: "string \<rightharpoonup> ITextModelSaver"
  modelService :: "URI \<rightharpoonup> IModel"
  effects :: "ServiceEffect list"

definition new_TextModelResolverService :: "(URI \<rightharpoonup> IModel) \<Rightarrow> TextModelResolverService" where
  "new_TextModelResolverService ms =
     \<lparr>resourceModelCollection = new_ResourceModelCollection,
      onDidChangeModelContent = new_ModelChangeEventEmitter,
      modelSaver = Map.empty, modelService = ms, effects = []\<rparr>"

text \<open>The listener the constructor puts on the unified content-change event.\<close>

definition onDidChangeContent_listener ::
  "TextModelResolverService \<Rightarrow> IModel \<Rightarrow> TextModelResolverService" where
  "onDidChangeContent_listener svc model =
     (if modelSaver svc (uri_scheme (uri model)) \<noteq> None
      then svc\<lparr>effects := effects svc @ [Fire (StateChangeEvent Dirty (uri model))]\<rparr>
      else svc)"

text \<open>The content of a model changes: each listener attached to it fires the unified
  event, which runs the listener above.\<close>

definition modelContentChanged ::
  "TextModelResolverService \<Rightarrow> IModel \<Rightarrow> TextModelResolverService" where
  "modelContentChanged svc m =
     ((\<lambda>s. onDidChangeContent_listener s m) ^^ firings (onDidChangeModelContent svc) m) svc"

definition modelServiceNotifies ::
  "TextModelResolverService \<Rightarrow> ModelNotification \<Rightarrow> TextModelResolverService" where
  "modelServiceNotifies svc n =
     svc\<lparr>onDidChangeModelContent := notify (onDidChangeModelContent svc) n\<rparr>"

definition service_dispose :: "TextModelResolverService \<Rightarrow> TextModelResolverService" where
  "service_dispose svc =
     svc\<lparr>onDidChangeModelContent := emitter_dispose (onDidChangeModelContent svc)\<rparr>"

text \<open>
  Modelled from the spec: \<^verbatim>\<open>ImmortalReference\<close> of \<^verbatim>\<open>vs/base/common/lifecycle\<close>, not among the
  sources at hand, wraps the model in a handle whose release is a no-op. The other
  reference to an editor model is the literal \<^verbatim>\<open>{ object: model, dispose: () => ref.dispose() }\<close>
  of the source.
\<close>

datatype IReference =
    ImmortalReference ITextEditorModel
  | CollectionReference ITextEditorModel Handle

definition reference_dispose ::
  "TextModelResolverService \<Rightarrow> IReference \<Rightarrow> TextModelResolverService" where
  "reference_dispose svc reference =
     (case reference of
        ImmortalReference model \<Rightarrow> svc
      | CollectionReference model h \<Rightarrow>
          svc\<lparr>resourceModelCollection := disposeHandle (resourceModelCollection svc) h\<rparr>)"

definition createModelReference ::
  "Collaborators \<Rightarrow> TextModelResolverService \<Rightarrow> URI
     \<Rightarrow> TextModelResolverService \<times> IReference TPromise" where
  "createModelReference env svc resource =
     (if uri_scheme resource = UNTITLED_SCHEMA
      then (svc, case untitledLoadOrCreate env resource of
                   Fulfilled model \<Rightarrow> Fulfilled (ImmortalReference model)
                 | Rejected err \<Rightarrow> Rejected err)
      else if uri_scheme resource = ''inmemory''
      then (case modelService svc resource of
              None \<Rightarrow> (svc, Rejected ''Cant resolve inmemory resource'')
            | Some cachedModel \<Rightarrow>
                (svc, Fulfilled (ImmortalReference (ResourceEditorModel resource))))
      else (case acquire env (resourceModelCollection svc) resource of
              (c, ref) \<Rightarrow>
                (case handle_object ref of
                   Fulfilled model \<Rightarrow>
                     (svc\<lparr>resourceModelCollection := c\<rparr>,
                      Fulfilled (CollectionReference model ref))
                 | Rejected err \<Rightarrow>
                     (svc\<lparr>resourceModelCollection := disposeHandle c ref\<rparr>, Rejected err))))"

definition registerTextModelContentProvider ::
  "TextModelResolverService \<Rightarrow> string \<Rightarrow> ITextModelContentProvider
     \<Rightarrow> TextModelResolverService \<times> (string \<times> ITextModelContentProvider)" where
  "registerTextModelContentProvider svc scheme provider =
     (case rmc_registerTextModelContentProvider (resourceModelCollection svc) scheme provider of
        (c, h) \<Rightarrow> (svc\<lparr>resourceModelCollection := c\<rparr>, h))"

text \<open>
  \<^verbatim>\<open>registerTextModelSaver\<close> throws when the scheme has a saver (\<open>Inl\<close> the message of the
  error); otherwise it returns a disposable that closes over the scheme alone.
\<close>

definition registerTextModelSaver ::
  "TextModelResolverService \<Rightarrow> string \<Rightarrow> ITextModelSaver
     \<Rightarrow> TextModelResolverService \<times> (string + string)" where
  "registerTextModelSaver svc scheme saver =
     (if modelSaver svc scheme \<noteq> None
      then (svc, Inl (''there can only be one saver for the scheme '' @ [CHR 0x27] @ scheme
                        @ [CHR 0x27]))
      else (svc\<lparr>modelSaver := (modelSaver svc)(scheme \<mapsto> saver)\<rparr>, Inr scheme))"

text \<open>The body of that disposable: \<^verbatim>\<open>this._modelSaver.delete(scheme)\<close>.\<close>

definition saverRegistration_dispose ::
  "TextModelResolverService \<Rightarrow> string \<Rightarrow> TextModelResolverService" where
  "saverRegistration_dispose svc scheme = svc\<lparr>modelSaver := (modelSaver svc)(scheme := None)\<rparr>"

definition save ::
  "Collaborators \<Rightarrow> TextModelResolverService \<Rightarrow> URI \<Rightarrow> ITextModelSaveOptions option
     \<Rightarrow> TextModelResolverService \<times> unit TPromise" where
  "save env svc resource options =
     (case modelService svc resource of
        None \<Rightarrow> (svc, Rejected ''MISSING_MODEL'')
      | Some model \<Rightarrow>
          (case modelSaver svc (uri_scheme resource) of
             None \<Rightarrow> (svc, Rejected ''MISSING_SAVER'')
           | Some saver \<Rightarrow>
               (let svc' = svc\<lparr>effects := effects svc
                                 @ [Fire (StateChangeEvent Saving resource),
                                    SaveTextContent saver resource model options]\<rparr>
                in case saveTextContent env saver resource model options of
                     Fulfilled u \<Rightarrow>
                       (svc'\<lparr>effects := effects svc' @ [Fire (StateChangeEvent Saved resource)]\<rparr>,
                        Fulfilled ())
                   | Rejected err \<Rightarrow> (svc', Rejected err))))"

definition supportsSave :: "TextModelResolverService \<Rightarrow> URI \<Rightarrow> bool" where
  "supportsSave svc resource = (modelSaver svc (uri_scheme resource) \<noteq> None)"

subsection \<open>Example values\<close>


definition ex_resource :: URI where
  "ex_resource = URI ''demo'' ''//x''"

definition ex_model :: IModel where
  "ex_model = IModel 0 ex_resource"

definition ex_env :: Collaborators where
  "ex_env =
     \<lparr>provideTextContent = (\<lambda>p r. if p = 2 then Some (IModel 7 r) else None),
      saveTextContent = (\<lambda>s r m opt. if s = 1 then Fulfilled () else Rejected ''disk full''),
      loadOrCreate = (\<lambda>r. Rejected ''ENOENT''),
      untitledLoadOrCreate = (\<lambda>r. Fulfilled (UntitledEditorModel r))\<rparr>"

definition ex_service :: TextModelResolverService where
  "ex_service = new_TextModelResolverService [ex_resource \<mapsto> ex_model]"

definition ex_service_saver :: "ITextModelSaver \<Rightarrow> TextModelResolverService" where
  "ex_service_saver saver = fst (registerTextModelSaver ex_service ''demo'' saver)"

definition ex_model2 :: IModel where
  "ex_model2 = IModel 1 (URI ''demo'' ''//y'')"

text \<open>The collection after registering the given providers for \<open>demo\<close>, one after the other.\<close>

definition ex_providers :: "ITextModelContentProvider list \<Rightarrow> ResourceModelCollection" where
  "ex_providers ps =
     foldl (\<lambda>c p. fst (rmc_registerTextModelContentProvider c ''demo'' p))
       new_ResourceModelCollection ps"

definition ex_service_tracking :: "TextModelResolverService \<Rightarrow> TextModelResolverService" where
  "ex_service_tracking svc = modelServiceNotifies svc (ModelAdded ex_model)"

definition ex_inmemory :: URI where
  "ex_inmemory = URI ''inmemory'' ''//model/1''"

definition ex_service_inmemory :: TextModelResolverService where
  "ex_service_inmemory = new_TextModelResolverService [ex_inmemory \<mapsto> IModel 5 ex_inmemory]"


section \<open>Properties\<close>

subsection \<open>Savers and saving\<close>

text \<open>
  C2. When a saver is registered for a scheme, \<^verbatim>\<open>registerTextModelSaver\<close> for that scheme
  throws, and the service is left as it was: the saver registered first is still the
  saver of the scheme.
\<close>

theorem registerTextModelSaver_duplicate:
  assumes "modelSaver svc scheme = Some saver"
  shows "registerTextModelSaver svc scheme saver2 =
           (svc, Inl (''there can only be one saver for the scheme '' @ [CHR 0x27] @ scheme
                        @ [CHR 0x27]))
         \<and> modelSaver (fst (registerTextModelSaver svc scheme saver2)) scheme = Some saver
         \<and> supportsSave (fst (registerTextModelSaver svc scheme saver2)) (URI scheme rest)"
  using assms by (simp add: registerTextModelSaver_def supportsSave_def)

text \<open>The case of C2 on a service where saver 1 has been registered for \<open>demo\<close>.\<close>

theorem registerTextModelSaver_duplicate_witness:
  "modelSaver (fst (registerTextModelSaver ex_service ''demo'' 1)) ''demo'' = Some 1
   \<and> registerTextModelSaver (fst (registerTextModelSaver ex_service ''demo'' 1)) ''demo'' 2 =
       (fst (registerTextModelSaver ex_service ''demo'' 1),
        Inl (''there can only be one saver for the scheme '' @ [CHR 0x27] @ ''demo''
               @ [CHR 0x27]))
   \<and> modelSaver (fst (registerTextModelSaver (fst (registerTextModelSaver ex_service ''demo'' 1))
        ''demo'' 2)) ''demo'' = Some 1
   \<and> supportsSave (fst (registerTextModelSaver (fst (registerTextModelSaver ex_service ''demo'' 1))
        ''demo'' 2)) (URI ''demo'' ''//x'')"
proof -
  have h: "modelSaver (fst (registerTextModelSaver ex_service ''demo'' 1)) ''demo'' = Some 1"
    by (simp add: registerTextModelSaver_def ex_service_def new_TextModelResolverService_def)
  from h registerTextModelSaver_duplicate [OF h, of 2 "''//x''"] show ?thesis by blast
qed

text \<open>
  C10. Disposing the handle of a saver registration deletes whatever saver the scheme has
  at that moment. Starting without a saver for the scheme: register A, dispose the handle of
  A, register B (which succeeds), dispose the handle of A again; B is then gone and the
  scheme does not support saving.
\<close>

theorem saver_disposal_by_scheme:
  assumes "modelSaver svc scheme = None"
  shows "modelSaver (saverRegistration_dispose svc' scheme) scheme = None
         \<and> (\<exists>svc1 handleA svc3 handleB.
               registerTextModelSaver svc scheme saverA = (svc1, Inr handleA)
             \<and> registerTextModelSaver (saverRegistration_dispose svc1 handleA) scheme saverB
                 = (svc3, Inr handleB)
             \<and> modelSaver svc3 scheme = Some saverB
             \<and> modelSaver (saverRegistration_dispose svc3 handleA) scheme = None
             \<and> \<not> supportsSave (saverRegistration_dispose svc3 handleA) (URI scheme rest))"
  using assms
  by (simp add: registerTextModelSaver_def saverRegistration_dispose_def supportsSave_def)


text \<open>The scenario of C10 with savers 1 and 2 on the scheme \<open>demo\<close>.\<close>

theorem saver_disposal_by_scheme_witness:
  "modelSaver ex_service ''demo'' = None
   \<and> (\<exists>svc1 handleA svc3 handleB.
               registerTextModelSaver ex_service ''demo'' 1 = (svc1, Inr handleA)
             \<and> registerTextModelSaver (saverRegistration_dispose svc1 handleA) ''demo'' 2
                 = (svc3, Inr handleB)
             \<and> modelSaver svc3 ''demo'' = Some 2
             \<and> modelSaver (saverRegistration_dispose svc3 handleA) ''demo'' = None
             \<and> \<not> supportsSave (saverRegistration_dispose svc3 handleA) (URI ''demo'' ''//x''))"
proof -
  have h: "modelSaver ex_service ''demo'' = None"
    by (simp add: ex_service_def new_TextModelResolverService_def)
  show ?thesis
    using h saver_disposal_by_scheme [OF h, of ex_service 1 2 "''//x''"] by blast
qed

text \<open>
  C4 as stated asks for \<^verbatim>\<open>MISSING_SAVER\<close> whenever the scheme has no saver. With neither a
  model nor a saver the model is looked up first, and the error is \<^verbatim>\<open>MISSING_MODEL\<close>.
\<close>

theorem save_missing_saver_counterexample:
  "modelSaver (new_TextModelResolverService Map.empty) (uri_scheme ex_resource) = None
   \<and> snd (save ex_env (new_TextModelResolverService Map.empty) ex_resource None)
       = Rejected ''MISSING_MODEL''
   \<and> snd (save ex_env (new_TextModelResolverService Map.empty) ex_resource None)
       \<noteq> Rejected ''MISSING_SAVER''"
  by (simp add: save_def new_TextModelResolverService_def)

text \<open>
  C4, amended. \<^verbatim>\<open>save\<close> fails with \<^verbatim>\<open>MISSING_MODEL\<close> when the model service has no model for
  the resource, and with \<^verbatim>\<open>MISSING_SAVER\<close> when it has one but the scheme has no saver. In
  both cases the service is returned unchanged: no event is fired, and the saver map and
  the models are as before.
\<close>

theorem save_missing_preconditions:
  "(modelService svc resource = None
      \<longrightarrow> save env svc resource options = (svc, Rejected ''MISSING_MODEL''))
   \<and> (modelService svc resource = Some model \<and> modelSaver svc (uri_scheme resource) = None
      \<longrightarrow> save env svc resource options = (svc, Rejected ''MISSING_SAVER''))"
  by (simp add: save_def)

text \<open>Both failures of C4 on concrete services.\<close>

theorem save_missing_preconditions_witness:
  "modelService (new_TextModelResolverService Map.empty) ex_resource = None
   \<and> save ex_env (new_TextModelResolverService Map.empty) ex_resource None
       = (new_TextModelResolverService Map.empty, Rejected ''MISSING_MODEL'')
   \<and> modelService ex_service ex_resource = Some ex_model
   \<and> modelSaver ex_service (uri_scheme ex_resource) = None
   \<and> save ex_env ex_service ex_resource None = (ex_service, Rejected ''MISSING_SAVER'')"
proof -
  have a: "modelService (new_TextModelResolverService Map.empty) ex_resource = None"
    by (simp add: new_TextModelResolverService_def)
  have b: "modelService ex_service ex_resource = Some ex_model
           \<and> modelSaver ex_service (uri_scheme ex_resource) = None"
    by (simp add: ex_service_def new_TextModelResolverService_def)
  show ?thesis
    using a b
      save_missing_preconditions [of "new_TextModelResolverService Map.empty" ex_resource
        ex_env None ex_model]
      save_missing_preconditions [of ex_service ex_resource ex_env None ex_model]
    by simp
qed

text \<open>
  C3 as stated promises the \<open>saved\<close> event for every resource with a model and a saver.
  Saver 3 of the example fails, and \<open>saved\<close> is never fired.
\<close>

theorem save_rejecting_saver_counterexample:
  "modelService (ex_service_saver 3) ex_resource = Some ex_model
   \<and> modelSaver (ex_service_saver 3) (uri_scheme ex_resource) = Some 3
   \<and> effects (fst (save ex_env (ex_service_saver 3) ex_resource None))
       = [Fire (StateChangeEvent Saving ex_resource), SaveTextContent 3 ex_resource ex_model None]
   \<and> Fire (StateChangeEvent Saved ex_resource)
       \<notin> set (effects (fst (save ex_env (ex_service_saver 3) ex_resource None)))"
  by (simp add: save_def ex_service_saver_def registerTextModelSaver_def ex_service_def
      new_TextModelResolverService_def ex_resource_def ex_env_def)

text \<open>
  C3, amended. For a resource with a model and a saver for its scheme, \<^verbatim>\<open>save\<close> fires
  \<open>saving\<close>, then calls \<^verbatim>\<open>saveTextContent\<close> of the saver; when the saver succeeds it then fires
  \<open>saved\<close>, and these are all the effects of the call. When the saver fails, \<open>saving\<close> is the
  only event and the failure of the saver is the failure of \<^verbatim>\<open>save\<close>.
\<close>

theorem save_lifecycle_events:
  assumes "modelService svc resource = Some model"
      and "modelSaver svc (uri_scheme resource) = Some saver"
  shows "(saveTextContent env saver resource model options = Fulfilled ()
            \<longrightarrow> save env svc resource options =
                  (svc\<lparr>effects := effects svc
                         @ [Fire (StateChangeEvent Saving resource),
                            SaveTextContent saver resource model options,
                            Fire (StateChangeEvent Saved resource)]\<rparr>,
                   Fulfilled ()))
         \<and> (saveTextContent env saver resource model options = Rejected err
            \<longrightarrow> save env svc resource options =
                  (svc\<lparr>effects := effects svc
                         @ [Fire (StateChangeEvent Saving resource),
                            SaveTextContent saver resource model options]\<rparr>,
                   Rejected err))"
  using assms by (simp add: save_def)

text \<open>C3 on the example service, with a saver that succeeds and one that fails.\<close>

theorem save_lifecycle_events_witness:
  "modelService (ex_service_saver 1) ex_resource = Some ex_model
   \<and> modelSaver (ex_service_saver 1) (uri_scheme ex_resource) = Some 1
   \<and> saveTextContent ex_env 1 ex_resource ex_model None = Fulfilled ()
   \<and> save ex_env (ex_service_saver 1) ex_resource None =
       ((ex_service_saver 1)\<lparr>effects := effects (ex_service_saver 1)
            @ [Fire (StateChangeEvent Saving ex_resource),
               SaveTextContent 1 ex_resource ex_model None,
               Fire (StateChangeEvent Saved ex_resource)]\<rparr>,
        Fulfilled ())
   \<and> modelService (ex_service_saver 3) ex_resource = Some ex_model
   \<and> modelSaver (ex_service_saver 3) (uri_scheme ex_resource) = Some 3
   \<and> saveTextContent ex_env 3 ex_resource ex_model None = Rejected ''disk full''
   \<and> save ex_env (ex_service_saver 3) ex_resource None =
       ((ex_service_saver 3)\<lparr>effects := effects (ex_service_saver 3)
            @ [Fire (StateChangeEvent Saving ex_resource),
               SaveTextContent 3 ex_resource ex_model None]\<rparr>,
        Rejected ''disk full'')"
proof -
  have a: "modelService (ex_service_saver s) ex_resource = Some ex_model
           \<and> modelSaver (ex_service_saver s) (uri_scheme ex_resource) = Some s" for s
    by (simp add: ex_service_saver_def registerTextModelSaver_def ex_service_def
        new_TextModelResolverService_def ex_resource_def)
  have b: "saveTextContent ex_env 1 ex_resource ex_model None = Fulfilled ()
           \<and> saveTextContent ex_env 3 ex_resource ex_model None = Rejected ''disk full''"
    by (simp add: ex_env_def)
  show ?thesis
    using a [of 1] a [of 3] b
      save_lifecycle_events [of "ex_service_saver 1" ex_resource ex_model 1 ex_env None]
      save_lifecycle_events [of "ex_service_saver 3" ex_resource ex_model 3 ex_env None
        "''disk full''"]
    by simp
qed

subsection \<open>Content providers\<close>

lemma indexOf_None: "indexOf xs y = None \<longleftrightarrow> y \<notin> set xs"
  by (induction xs) (auto split: option.splits)

lemma indexOf_Some_mem: "indexOf xs y = Some i \<Longrightarrow> y \<in> set xs"
  using indexOf_None [of xs y] by auto

text \<open>Splicing at the index found removes the first occurrence.\<close>

lemma indexOf_splice1: "indexOf xs y = Some i \<Longrightarrow> splice1 xs i = remove1 y xs"
proof (induction xs arbitrary: i)
  case Nil
  then show ?case by simp
next
  case (Cons x xs)
  show ?case
  proof (cases "x = y")
    case True
    with Cons.prems show ?thesis by (simp add: splice1_def)
  next
    case False
    with Cons.prems obtain j where j: "indexOf xs y = Some j" "i = Suc j"
      by (auto split: option.splits)
    with Cons.IH [of j] False show ?thesis by (simp add: splice1_def)
  qed
qed

lemma providersFor_register:
  "providersFor (fst (rmc_registerTextModelContentProvider c scheme p)) scheme
     = p # providersFor c scheme"
  by (simp add: rmc_registerTextModelContentProvider_def providersFor_def)

lemma providersFor_unregister:
  "providersFor (rmc_unregister c (scheme, p)) scheme = remove1 p (providersFor c scheme)"
proof (cases "providers c scheme")
  case None
  then show ?thesis by (simp add: rmc_unregister_def providersFor_def)
next
  case array: (Some array)
  show ?thesis
  proof (cases "indexOf array p")
    case None
    moreover from None have "p \<notin> set array" by (simp add: indexOf_None)
    ultimately show ?thesis
      using array by (simp add: rmc_unregister_def providersFor_def remove1_idem)
  next
    case (Some index)
    with array indexOf_splice1 [OF Some] show ?thesis
      by (simp add: rmc_unregister_def providersFor_def)
  qed
qed

lemma unregister_other_scheme:
  "scheme' \<noteq> scheme \<Longrightarrow> providers (rmc_unregister c (scheme, p)) scheme' = providers c scheme'"
  by (simp add: rmc_unregister_def split: option.splits)

lemma unregister_deletes_empty:
  "providersFor (rmc_unregister c (scheme, p)) scheme = [] \<Longrightarrow> p \<in> set (providersFor c scheme)
     \<Longrightarrow> providers (rmc_unregister c (scheme, p)) scheme = None"
  by (auto simp: rmc_unregister_def providersFor_def indexOf_None split: option.splits)

lemma unregister_absent:
  "p \<notin> set (providersFor c scheme) \<Longrightarrow> rmc_unregister c (scheme, p) = c"
  by (auto simp: rmc_unregister_def providersFor_def dest: indexOf_Some_mem split: option.splits)

lemma register_unregister_same:
  "providers c scheme \<noteq> Some [] \<Longrightarrow>
   rmc_unregister (fst (rmc_registerTextModelContentProvider c scheme p)) (scheme, p) = c"
  by (cases "providers c scheme")
     (auto simp: rmc_unregister_def rmc_registerTextModelContentProvider_def providersFor_def
        splice1_def fun_upd_idem map_upd_triv)

lemmas ex_providers_simps =
  ex_providers_def rmc_registerTextModelContentProvider_def providersFor_def
  new_ResourceModelCollection_def ex_resource_def

text \<open>
  C6 as stated makes a second disposal of the handle a no-op for every provider. When the
  same provider instance is registered for the scheme a second time, the first disposal of
  the new handle removes one occurrence and the second disposal of that handle removes the
  other one, which belongs to the earlier registration.
\<close>

theorem provider_double_dispose_counterexample:
  "providers (ex_providers [1]) ''demo'' = Some [1]
   \<and> snd (rmc_registerTextModelContentProvider (ex_providers [1]) ''demo'' 1) = (''demo'', 1)
   \<and> providers
        (rmc_unregister (fst (rmc_registerTextModelContentProvider (ex_providers [1]) ''demo'' 1))
           (''demo'', 1)) ''demo'' = Some [1]
   \<and> providers
        (rmc_unregister
           (rmc_unregister
              (fst (rmc_registerTextModelContentProvider (ex_providers [1]) ''demo'' 1))
              (''demo'', 1))
           (''demo'', 1)) ''demo'' = None"
  by (simp add: ex_providers_simps rmc_unregister_def splice1_def)

text \<open>
  C6, amended. Registering provider \<open>p\<close> for a scheme returns a handle on that scheme and
  provider and puts \<open>p\<close> in front of the list of the scheme. Disposing the handle right away
  restores the list of the scheme to its prior contents, and the whole collection when the
  scheme had no empty list. Disposed in any state \<open>c'\<close>, the handle removes one occurrence of
  \<open>p\<close>, the first, from the list of its scheme and nothing else: the other providers of the
  scheme stay, in their order, and the other schemes are untouched; when the list becomes
  empty the entry of the scheme is deleted. Disposing the handle again is a no-op provided
  \<open>p\<close> was not in the list of the scheme before the registration.
\<close>

theorem provider_unregistration:
  "snd (rmc_registerTextModelContentProvider c scheme p) = (scheme, p)
   \<and> providersFor (fst (rmc_registerTextModelContentProvider c scheme p)) scheme
       = p # providersFor c scheme
   \<and> providersFor (rmc_unregister (fst (rmc_registerTextModelContentProvider c scheme p))
        (scheme, p)) scheme = providersFor c scheme
   \<and> (providers c scheme \<noteq> Some [] \<longrightarrow>
        rmc_unregister (fst (rmc_registerTextModelContentProvider c scheme p)) (scheme, p) = c)
   \<and> providersFor (rmc_unregister c' (scheme, p)) scheme = remove1 p (providersFor c' scheme)
   \<and> (scheme' \<noteq> scheme \<longrightarrow>
        providers (rmc_unregister c' (scheme, p)) scheme' = providers c' scheme')
   \<and> (p \<in> set (providersFor c' scheme) \<and> remove1 p (providersFor c' scheme) = [] \<longrightarrow>
        providers (rmc_unregister c' (scheme, p)) scheme = None)
   \<and> (p \<notin> set (providersFor c scheme) \<longrightarrow>
        rmc_unregister
          (rmc_unregister (fst (rmc_registerTextModelContentProvider c scheme p)) (scheme, p))
          (scheme, p)
        = rmc_unregister (fst (rmc_registerTextModelContentProvider c scheme p)) (scheme, p))"
proof -
  have a: "providersFor (fst (rmc_registerTextModelContentProvider c scheme p)) scheme
             = p # providersFor c scheme"
    by (rule providersFor_register)
  have b: "providersFor (rmc_unregister (fst (rmc_registerTextModelContentProvider c scheme p))
             (scheme, p)) scheme = providersFor c scheme"
    by (simp add: providersFor_unregister a)
  have c: "p \<notin> set (providersFor c scheme) \<Longrightarrow>
        rmc_unregister
          (rmc_unregister (fst (rmc_registerTextModelContentProvider c scheme p)) (scheme, p))
          (scheme, p)
        = rmc_unregister (fst (rmc_registerTextModelContentProvider c scheme p)) (scheme, p)"
    by (rule unregister_absent) (simp add: b)
  have d: "p \<in> set (providersFor c' scheme) \<and> remove1 p (providersFor c' scheme) = [] \<Longrightarrow>
        providers (rmc_unregister c' (scheme, p)) scheme = None"
    by (rule unregister_deletes_empty) (simp_all add: providersFor_unregister)
  show ?thesis
    using a b c d
    by (simp add: providersFor_unregister unregister_other_scheme register_unregister_same)
       (simp add: rmc_registerTextModelContentProvider_def)
qed

text \<open>C6 on collections with provider 2, respectively provider 1, registered for \<open>demo\<close>.\<close>

theorem provider_unregistration_witness:
  "providers (ex_providers [2]) ''demo'' \<noteq> Some []
   \<and> rmc_unregister (fst (rmc_registerTextModelContentProvider (ex_providers [2]) ''demo'' 1))
        (''demo'', 1) = ex_providers [2]
   \<and> ''other'' \<noteq> ''demo''
   \<and> providers (rmc_unregister (ex_providers [1]) (''demo'', 1)) ''other''
       = providers (ex_providers [1]) ''other''
   \<and> 1 \<in> set (providersFor (ex_providers [1]) ''demo'')
   \<and> remove1 1 (providersFor (ex_providers [1]) ''demo'') = []
   \<and> providers (rmc_unregister (ex_providers [1]) (''demo'', 1)) ''demo'' = None
   \<and> 1 \<notin> set (providersFor (ex_providers [2]) ''demo'')
   \<and> rmc_unregister
        (rmc_unregister (fst (rmc_registerTextModelContentProvider (ex_providers [2]) ''demo'' 1))
           (''demo'', 1))
        (''demo'', 1)
       = rmc_unregister (fst (rmc_registerTextModelContentProvider (ex_providers [2]) ''demo'' 1))
           (''demo'', 1)"
proof -
  have a: "providers (ex_providers [2]) ''demo'' \<noteq> Some []"
    and b: "''other'' \<noteq> ''demo''"
    and c: "1 \<in> set (providersFor (ex_providers [1]) ''demo'')"
    and d: "remove1 1 (providersFor (ex_providers [1]) ''demo'') = []"
    and e: "1 \<notin> set (providersFor (ex_providers [2]) ''demo'')"
    by (simp_all add: ex_providers_simps)
  from a b c d e
    provider_unregistration [of "ex_providers [2]" "''demo''" 1 "ex_providers [1]" "''other''"]
  show ?thesis by blast
qed

text \<open>Providers that all return nothing are all invoked, in the order of the list.\<close>

lemma first_all_nothing:
  "\<forall>p \<in> set ps. provideTextContent env p r = None \<Longrightarrow>
   first (map (providerFactory env r) ps) c
     = (c\<lparr>calls := calls c @ map (\<lambda>p. ProvideTextContent p r) ps\<rparr>, None)"
  by (induction ps arbitrary: c) (simp_all add: providerFactory_def)

text \<open>The sequence stops at the first provider that returns content.\<close>

lemma first_stops:
  "\<forall>q \<in> set quiet. provideTextContent env q r = None \<Longrightarrow>
   provideTextContent env p r = Some model \<Longrightarrow>
   first (map (providerFactory env r) (quiet @ p # later)) c
     = (c\<lparr>calls := calls c @ map (\<lambda>p. ProvideTextContent p r) (quiet @ [p])\<rparr>, Some model)"
  by (induction quiet arbitrary: c) (simp_all add: providerFactory_def)

text \<open>
  C1. A provider registered later stands before the ones registered earlier: after
  registering \<open>p1\<close> and then \<open>p2\<close> for a scheme, the list of the scheme is \<open>p2\<close>, \<open>p1\<close> and
  what was there. A resource whose scheme is not the file scheme is resolved through
  \<^verbatim>\<open>resolveTextModelContent\<close>, which goes through the list of the scheme of the resource in
  that order: when every provider returns nothing (also when there is none), all of them
  are invoked and the resolution fails with \<open>resource is not available\<close>; when the providers
  \<open>quiet\<close> at the head of the list return nothing and the next one, \<open>hit\<close>, returns a model,
  exactly \<open>quiet\<close> and then \<open>hit\<close> are invoked, the providers \<open>later\<close> are not, and the
  resolution yields that model.
\<close>

theorem resolveTextModelContent_order:
  "providersFor
     (fst (rmc_registerTextModelContentProvider
        (fst (rmc_registerTextModelContentProvider c scheme p1)) scheme p2)) scheme
     = p2 # p1 # providersFor c scheme
   \<and> (uri_scheme resource \<noteq> Schemas_file \<longrightarrow>
        createReferencedObject env c resource
          = (fst (resolveTextModelContent env c resource),
             case snd (resolveTextModelContent env c resource) of
               Rejected err \<Rightarrow> Rejected err
             | Fulfilled model \<Rightarrow> Fulfilled (ResourceEditorModel resource)))
   \<and> ((\<forall>q \<in> set (providersFor c (uri_scheme resource)).
          provideTextContent env q resource = None) \<longrightarrow>
        resolveTextModelContent env c resource
          = (c\<lparr>calls := calls c
                  @ map (\<lambda>q. ProvideTextContent q resource)
                      (providersFor c (uri_scheme resource))
                  @ [ConsoleError resource]\<rparr>,
             Rejected ''resource is not available''))
   \<and> (providersFor c (uri_scheme resource) = quiet @ hit # later
        \<and> (\<forall>q \<in> set quiet. provideTextContent env q resource = None)
        \<and> provideTextContent env hit resource = Some model \<longrightarrow>
        resolveTextModelContent env c resource
          = (c\<lparr>calls := calls c @ map (\<lambda>q. ProvideTextContent q resource) (quiet @ [hit])\<rparr>,
             Fulfilled model))"
proof -
  have a: "providersFor
     (fst (rmc_registerTextModelContentProvider
        (fst (rmc_registerTextModelContentProvider c scheme p1)) scheme p2)) scheme
     = p2 # p1 # providersFor c scheme"
    by (simp add: providersFor_register)
  have b: "resolveTextModelContent env c resource
          = (c\<lparr>calls := calls c
                  @ map (\<lambda>q. ProvideTextContent q resource)
                      (providersFor c (uri_scheme resource))
                  @ [ConsoleError resource]\<rparr>,
             Rejected ''resource is not available'')"
    if "\<forall>q \<in> set (providersFor c (uri_scheme resource)).
          provideTextContent env q resource = None"
    using first_all_nothing [OF that, of c]
    by (simp add: resolveTextModelContent_def)
  have c: "resolveTextModelContent env c resource
          = (c\<lparr>calls := calls c @ map (\<lambda>q. ProvideTextContent q resource) (quiet @ [hit])\<rparr>,
             Fulfilled model)"
    if "providersFor c (uri_scheme resource) = quiet @ hit # later"
      and "\<forall>q \<in> set quiet. provideTextContent env q resource = None"
      and "provideTextContent env hit resource = Some model"
    using first_stops [OF that(2) that(3), of later c] that(1)
    by (simp add: resolveTextModelContent_def)
  have d: "createReferencedObject env c resource
          = (fst (resolveTextModelContent env c resource),
             case snd (resolveTextModelContent env c resource) of
               Rejected err \<Rightarrow> Rejected err
             | Fulfilled model \<Rightarrow> Fulfilled (ResourceEditorModel resource))"
    if "uri_scheme resource \<noteq> Schemas_file"
    using that by (simp add: createReferencedObject_def case_prod_beta split: TPromise.splits)
  from a b c d show ?thesis by blast
qed

text \<open>
  C1 with providers 1, 2 and 3 registered in this order, of which only provider 2 has
  content: 3 and then 2 are asked, 1 is not. With providers 1 and 3 alone, 3 and then 1
  are asked and the resolution fails.
\<close>

theorem resolveTextModelContent_order_witness:
  "uri_scheme ex_resource \<noteq> Schemas_file
   \<and> providersFor (ex_providers [1, 2, 3]) (uri_scheme ex_resource) = [3] @ 2 # [1]
   \<and> provideTextContent ex_env 3 ex_resource = None
   \<and> provideTextContent ex_env 2 ex_resource = Some (IModel 7 ex_resource)
   \<and> resolveTextModelContent ex_env (ex_providers [1, 2, 3]) ex_resource
       = ((ex_providers [1, 2, 3])
            \<lparr>calls := calls (ex_providers [1, 2, 3])
               @ [ProvideTextContent 3 ex_resource, ProvideTextContent 2 ex_resource]\<rparr>,
          Fulfilled (IModel 7 ex_resource))
   \<and> providersFor (ex_providers [1, 3]) (uri_scheme ex_resource) = [3, 1]
   \<and> provideTextContent ex_env 1 ex_resource = None
   \<and> resolveTextModelContent ex_env (ex_providers [1, 3]) ex_resource
       = ((ex_providers [1, 3])
            \<lparr>calls := calls (ex_providers [1, 3])
               @ [ProvideTextContent 3 ex_resource, ProvideTextContent 1 ex_resource,
                  ConsoleError ex_resource]\<rparr>,
          Rejected ''resource is not available'')
   \<and> snd (createReferencedObject ex_env (ex_providers [1, 3]) ex_resource)
       = Rejected ''resource is not available''"
proof -
  have nf: "uri_scheme ex_resource \<noteq> Schemas_file"
    by (simp add: ex_resource_def Schemas_file_def)
  have ps: "providersFor (ex_providers [1, 2, 3]) (uri_scheme ex_resource) = [3] @ 2 # [1]"
    and ps': "providersFor (ex_providers [1, 3]) (uri_scheme ex_resource) = [3, 1]"
    by (simp_all add: ex_providers_simps)
  have p3: "provideTextContent ex_env 3 ex_resource = None"
    and p2: "provideTextContent ex_env 2 ex_resource = Some (IModel 7 ex_resource)"
    and p1: "provideTextContent ex_env 1 ex_resource = None"
    by (simp_all add: ex_env_def)
  have quiet: "\<forall>q \<in> set [3]. provideTextContent ex_env q ex_resource = None"
    using p3 by simp
  have all: "\<forall>q \<in> set (providersFor (ex_providers [1, 3]) (uri_scheme ex_resource)).
               provideTextContent ex_env q ex_resource = None"
    using p1 p3 ps' by simp
  have hit: "resolveTextModelContent ex_env (ex_providers [1, 2, 3]) ex_resource
       = ((ex_providers [1, 2, 3])
            \<lparr>calls := calls (ex_providers [1, 2, 3])
               @ map (\<lambda>q. ProvideTextContent q ex_resource) ([3] @ [2])\<rparr>,
          Fulfilled (IModel 7 ex_resource))"
    using resolveTextModelContent_order
      [of "ex_providers [1, 2, 3]" "''demo''" 0 0 ex_resource ex_env "[3]" 2 "[1]"
        "IModel 7 ex_resource"] ps quiet p2
    by blast
  note order = resolveTextModelContent_order
      [of "ex_providers [1, 3]" "''demo''" 0 0 ex_resource ex_env "[3]" 2 "[1]"
        "IModel 7 ex_resource"]
  have miss: "resolveTextModelContent ex_env (ex_providers [1, 3]) ex_resource
       = ((ex_providers [1, 3])
            \<lparr>calls := calls (ex_providers [1, 3])
               @ map (\<lambda>q. ProvideTextContent q ex_resource)
                   (providersFor (ex_providers [1, 3]) (uri_scheme ex_resource))
               @ [ConsoleError ex_resource]\<rparr>,
          Rejected ''resource is not available'')"
    using order all by blast
  have cro: "createReferencedObject ex_env (ex_providers [1, 3]) ex_resource
          = (fst (resolveTextModelContent ex_env (ex_providers [1, 3]) ex_resource),
             case snd (resolveTextModelContent ex_env (ex_providers [1, 3]) ex_resource) of
               Rejected err \<Rightarrow> Rejected err
             | Fulfilled model \<Rightarrow> Fulfilled (ResourceEditorModel ex_resource))"
    using order nf by blast
  from hit have hit': "resolveTextModelContent ex_env (ex_providers [1, 2, 3]) ex_resource
       = ((ex_providers [1, 2, 3])
            \<lparr>calls := calls (ex_providers [1, 2, 3])
               @ [ProvideTextContent 3 ex_resource, ProvideTextContent 2 ex_resource]\<rparr>,
          Fulfilled (IModel 7 ex_resource))"
    by simp
  from miss ps' have miss': "resolveTextModelContent ex_env (ex_providers [1, 3]) ex_resource
       = ((ex_providers [1, 3])
            \<lparr>calls := calls (ex_providers [1, 3])
               @ [ProvideTextContent 3 ex_resource, ProvideTextContent 1 ex_resource,
                  ConsoleError ex_resource]\<rparr>,
          Rejected ''resource is not available'')"
    by simp
  from cro miss' have cro': "snd (createReferencedObject ex_env (ex_providers [1, 3]) ex_resource)
       = Rejected ''resource is not available''"
    by simp
  from nf ps ps' p1 p2 p3 hit' miss' cro' show ?thesis by blast
qed

subsection \<open>References\<close>

text \<open>Resolving content only adds to the record of calls.\<close>

lemma first_calls:
  "\<exists>log. fst (first (map (providerFactory env r) ps) c) = c\<lparr>calls := calls c @ log\<rparr>"
proof (induction ps arbitrary: c)
  case Nil
  have "fst (first (map (providerFactory env r) []) c) = c\<lparr>calls := calls c @ []\<rparr>" by simp
  then show ?case by blast
next
  case (Cons p ps)
  show ?case
  proof (cases "provideTextContent env p r")
    case None
    from Cons.IH [of "c\<lparr>calls := calls c @ [ProvideTextContent p r]\<rparr>"]
    obtain log where
      "fst (first (map (providerFactory env r) ps) (c\<lparr>calls := calls c @ [ProvideTextContent p r]\<rparr>))
         = c\<lparr>calls := calls c @ [ProvideTextContent p r] @ log\<rparr>"
      by auto
    with None have "fst (first (map (providerFactory env r) (p # ps)) c)
         = c\<lparr>calls := calls c @ (ProvideTextContent p r # log)\<rparr>"
      by (simp add: providerFactory_def)
    then show ?thesis by blast
  next
    case (Some model)
    then have "fst (first (map (providerFactory env r) (p # ps)) c)
         = c\<lparr>calls := calls c @ [ProvideTextContent p r]\<rparr>"
      by (simp add: providerFactory_def)
    then show ?thesis by blast
  qed
qed

lemma resolveTextModelContent_calls:
  "\<exists>log. fst (resolveTextModelContent env c r) = c\<lparr>calls := calls c @ log\<rparr>"
proof -
  obtain log where log:
    "fst (first (map (providerFactory env r) (providersFor c (uri_scheme r))) c)
       = c\<lparr>calls := calls c @ log\<rparr>"
    using first_calls by blast
  show ?thesis
  proof (cases "snd (first (map (providerFactory env r) (providersFor c (uri_scheme r))) c)")
    case None
    with log have "fst (resolveTextModelContent env c r)
                     = c\<lparr>calls := calls c @ (log @ [ConsoleError r])\<rparr>"
      by (simp add: resolveTextModelContent_def case_prod_beta)
    then show ?thesis by blast
  next
    case (Some model)
    with log have "fst (resolveTextModelContent env c r) = c\<lparr>calls := calls c @ log\<rparr>"
      by (simp add: resolveTextModelContent_def case_prod_beta)
    then show ?thesis by blast
  qed
qed

lemma createReferencedObject_calls:
  "\<exists>log. fst (createReferencedObject env c key) = c\<lparr>calls := calls c @ log\<rparr>"
proof (cases "uri_scheme key = Schemas_file")
  case True
  then have "fst (createReferencedObject env c key) = c\<lparr>calls := calls c @ [LoadOrCreate key]\<rparr>"
    by (simp add: createReferencedObject_def)
  then show ?thesis by blast
next
  case False
  obtain log where "fst (resolveTextModelContent env c key) = c\<lparr>calls := calls c @ log\<rparr>"
    using resolveTextModelContent_calls by blast
  with False have "fst (createReferencedObject env c key) = c\<lparr>calls := calls c @ log\<rparr>"
    by (simp add: createReferencedObject_def case_prod_beta split: TPromise.splits)
  then show ?thesis by blast
qed

text \<open>Acquiring a key whose object is rejected and disposing the handle leaves the count of
  the key as it was.\<close>

lemma refCount_acquire_dispose:
  assumes "handle_object (snd (acquire env c key)) = Rejected err"
  shows "refCount (disposeHandle (fst (acquire env c key)) (snd (acquire env c key))) key
           = refCount c key
         \<and> handle_id (snd (acquire env c key))
             \<notin> liveHandles (disposeHandle (fst (acquire env c key)) (snd (acquire env c key)))"
proof (cases "references c key")
  case None
  obtain log where log: "fst (createReferencedObject env c key) = c\<lparr>calls := calls c @ log\<rparr>"
    using createReferencedObject_calls by blast
  define obj where "obj = snd (createReferencedObject env c key)"
  have cro: "createReferencedObject env c key = (c\<lparr>calls := calls c @ log\<rparr>, obj)"
    using log obj_def by (metis prod.collapse)
  have acq: "acquire env c key =
      (c\<lparr>calls := calls c @ log,
         references := (references c)(key \<mapsto> \<lparr>counter = 1, object = obj\<rparr>),
         liveHandles := insert (nextHandle c) (liveHandles c),
         nextHandle := Suc (nextHandle c)\<rparr>,
       \<lparr>handle_key = key, handle_id = nextHandle c, handle_object = obj\<rparr>)"
    using None cro by (simp add: acquire_def)
  from assms acq have "obj = Rejected err" by simp
  with acq None show ?thesis
    by (simp add: disposeHandle_def refCount_def destroyReferencedObject_def)
next
  case (Some reference)
  with assms show ?thesis
    by (simp add: acquire_def disposeHandle_def refCount_def destroyReferencedObject_def Let_def)
qed

text \<open>
  C5. For a resource whose scheme is neither the untitled scheme nor \<open>inmemory\<close>, when the
  object of the handle acquired from the collection is rejected, \<^verbatim>\<open>createModelReference\<close>
  disposes that handle and fails with the same error: the count held on the key is what
  it was before the call, and the handle is no longer live.
\<close>

theorem createModelReference_failure_releases:
  assumes "uri_scheme resource \<noteq> UNTITLED_SCHEMA"
      and "uri_scheme resource \<noteq> ''inmemory''"
      and "handle_object (snd (acquire env (resourceModelCollection svc) resource)) = Rejected err"
  shows "createModelReference env svc resource =
           (svc\<lparr>resourceModelCollection :=
                  disposeHandle (fst (acquire env (resourceModelCollection svc) resource))
                    (snd (acquire env (resourceModelCollection svc) resource))\<rparr>,
            Rejected err)
         \<and> refCount (resourceModelCollection (fst (createModelReference env svc resource))) resource
             = refCount (resourceModelCollection svc) resource
         \<and> handle_id (snd (acquire env (resourceModelCollection svc) resource))
             \<notin> liveHandles (resourceModelCollection (fst (createModelReference env svc resource)))"
proof -
  have "createModelReference env svc resource =
           (svc\<lparr>resourceModelCollection :=
                  disposeHandle (fst (acquire env (resourceModelCollection svc) resource))
                    (snd (acquire env (resourceModelCollection svc) resource))\<rparr>,
            Rejected err)"
    using assms by (simp add: createModelReference_def case_prod_beta)
  with refCount_acquire_dispose [OF assms(3)] show ?thesis by simp
qed

text \<open>C5 on the example service, where no provider is registered for \<open>demo\<close>.\<close>

theorem createModelReference_failure_releases_witness:
  "uri_scheme ex_resource \<noteq> UNTITLED_SCHEMA
   \<and> uri_scheme ex_resource \<noteq> ''inmemory''
   \<and> handle_object (snd (acquire ex_env (resourceModelCollection ex_service) ex_resource))
       = Rejected ''resource is not available''
   \<and> refCount (resourceModelCollection ex_service) ex_resource = 0
   \<and> refCount (resourceModelCollection (fst (createModelReference ex_env ex_service ex_resource)))
        ex_resource = refCount (resourceModelCollection ex_service) ex_resource
   \<and> handle_id (snd (acquire ex_env (resourceModelCollection ex_service) ex_resource))
       \<notin> liveHandles
           (resourceModelCollection (fst (createModelReference ex_env ex_service ex_resource)))"
proof -
  have a: "uri_scheme ex_resource \<noteq> UNTITLED_SCHEMA" "uri_scheme ex_resource \<noteq> ''inmemory''"
    by (simp_all add: ex_resource_def UNTITLED_SCHEMA_def)
  have b: "handle_object (snd (acquire ex_env (resourceModelCollection ex_service) ex_resource))
       = Rejected ''resource is not available''"
    by (simp add: acquire_def createReferencedObject_def resolveTextModelContent_def
        providersFor_def ex_service_def new_TextModelResolverService_def
        new_ResourceModelCollection_def ex_resource_def Schemas_file_def)
  have c: "refCount (resourceModelCollection ex_service) ex_resource = 0"
    by (simp add: refCount_def ex_service_def new_TextModelResolverService_def
        new_ResourceModelCollection_def)
  from a b c createModelReference_failure_releases [OF a b] show ?thesis by blast
qed

text \<open>
  C8. For a resource of scheme \<open>inmemory\<close>, \<^verbatim>\<open>createModelReference\<close> fails with
  \<open>Cant resolve inmemory resource\<close> when the model service has no model for it; otherwise it
  resolves to an immortal reference, whose disposal leaves every state as it is. The
  service itself is unchanged in both cases.
\<close>

theorem createModelReference_inmemory:
  assumes "uri_scheme resource = ''inmemory''"
  shows "(modelService svc resource = None \<longrightarrow>
            createModelReference env svc resource
              = (svc, Rejected ''Cant resolve inmemory resource''))
         \<and> (modelService svc resource = Some cachedModel \<longrightarrow>
            createModelReference env svc resource
              = (svc, Fulfilled (ImmortalReference (ResourceEditorModel resource)))
            \<and> reference_dispose svc' (ImmortalReference (ResourceEditorModel resource)) = svc')"
  using assms
  by (simp add: createModelReference_def UNTITLED_SCHEMA_def reference_dispose_def)

text \<open>C8 on a service without, and one with, a model for the resource.\<close>

theorem createModelReference_inmemory_witness:
  "uri_scheme ex_inmemory = ''inmemory''
   \<and> modelService ex_service ex_inmemory = None
   \<and> createModelReference ex_env ex_service ex_inmemory
       = (ex_service, Rejected ''Cant resolve inmemory resource'')
   \<and> modelService ex_service_inmemory ex_inmemory = Some (IModel 5 ex_inmemory)
   \<and> createModelReference ex_env ex_service_inmemory ex_inmemory
       = (ex_service_inmemory, Fulfilled (ImmortalReference (ResourceEditorModel ex_inmemory)))
   \<and> reference_dispose ex_service_inmemory (ImmortalReference (ResourceEditorModel ex_inmemory))
       = ex_service_inmemory"
proof -
  have h: "uri_scheme ex_inmemory = ''inmemory''" by (simp add: ex_inmemory_def)
  have a: "modelService ex_service ex_inmemory = None"
    by (simp add: ex_service_def new_TextModelResolverService_def ex_inmemory_def ex_resource_def)
  have b: "modelService ex_service_inmemory ex_inmemory = Some (IModel 5 ex_inmemory)"
    by (simp add: ex_service_inmemory_def new_TextModelResolverService_def)
  show ?thesis
    using h a b
      createModelReference_inmemory [OF h, of ex_service ex_env "IModel 5 ex_inmemory"]
      createModelReference_inmemory [OF h, of ex_service_inmemory ex_env "IModel 5 ex_inmemory"
        ex_service_inmemory]
    by simp
qed

subsection \<open>The model change event emitter\<close>

lemma update_absent: "k \<notin> fst ` set al \<Longrightarrow> AList.update k v al = al @ [(k, v)]"
  by (induction al) auto

lemma tracks_new: "tracks new_ModelChangeEventEmitter {}"
  by (simp add: tracks_def new_ModelChangeEventEmitter_def)

lemma tracks_added:
  assumes "tracks e ms" and "m \<notin> ms"
  shows "tracks (onModelAdded e m) (insert m ms)"
proof -
  from assms have absent: "m \<notin> fst ` set (modelListener e)" by (simp add: tracks_def)
  have fresh: "nextSubscription e \<notin> snd ` set (modelListener e)"
    using assms(1) by (fastforce simp: tracks_def)
  have bound: "\<forall>p \<in> set (modelListener e). snd p < Suc (nextSubscription e)"
    using assms(1) by (simp add: tracks_def less_Suc_eq)
  show ?thesis
    using assms(1) absent fresh bound
    by (simp add: tracks_def onModelAdded_def update_absent [OF absent])
qed

lemma filter_key_value:
  assumes "distinct (map fst al)" and "distinct (map snd al)" and "(k, v) \<in> set al"
  shows "filter (\<lambda>p. snd p \<noteq> v) al = filter (\<lambda>p. fst p \<noteq> k) al"
proof (rule filter_cong [OF refl])
  fix p assume p: "p \<in> set al"
  have "fst p = k \<Longrightarrow> snd p = v"
    using assms(1,3) p by (metis eq_key_imp_eq_value prod.collapse)
  moreover have "snd p = v \<Longrightarrow> fst p = k"
    using assms(2,3) p
    by (metis (no_types, lifting) distinct_map inj_on_def prod.collapse snd_conv fst_conv)
  ultimately show "(snd p \<noteq> v) = (fst p \<noteq> k)" by blast
qed

text \<open>Deleting a key is filtering it out.\<close>

lemma delete_filter: "AList.delete k al = filter (\<lambda>p. fst p \<noteq> k) al"
  by (induction al) auto

lemma tracks_removed:
  assumes "tracks e ms"
  shows "tracks (onModelRemoved e m) (ms - {m})"
proof (cases "map_of (modelListener e) m")
  case None
  then have "m \<notin> fst ` set (modelListener e)" by (simp add: map_of_eq_None_iff)
  with assms None show ?thesis by (simp add: tracks_def onModelRemoved_def)
next
  case (Some s)
  have dk: "distinct (map fst (modelListener e))" using assms by (simp add: tracks_def)
  have dv: "distinct (map snd (modelListener e))" using assms by (simp add: tracks_def)
  have mem: "(m, s) \<in> set (modelListener e)" using Some by (rule map_of_SomeD)
  have subs: "filter (\<lambda>x. fst x \<noteq> s) (map (\<lambda>p. (snd p, fst p)) (modelListener e))
          = map (\<lambda>p. (snd p, fst p)) (AList.delete m (modelListener e))"
    using filter_key_value [OF dk dv mem] by (simp add: filter_map comp_def delete_filter)
  have keys: "fst ` set (AList.delete m (modelListener e)) = fst ` set (modelListener e) - {m}"
    by (auto simp: delete_filter)
  have "distinct (map fst (AList.delete m (modelListener e)))"
    using dk by (rule distinct_delete)
  moreover have "distinct (map snd (AList.delete m (modelListener e)))"
    using dv by (simp add: delete_filter distinct_map_filter)
  moreover have "\<forall>p \<in> set (AList.delete m (modelListener e)). snd p < nextSubscription e"
    using assms by (simp add: tracks_def delete_filter)
  ultimately show ?thesis
    using assms Some subs keys by (simp add: tracks_def onModelRemoved_def)
qed

lemma tracks_notify:
  assumes "tracks e ms" and "case n of ModelAdded m \<Rightarrow> m \<notin> ms | ModelRemoved m \<Rightarrow> True"
  shows "tracks (notify e n) (registryStep ms n)"
proof (cases n)
  case (ModelAdded m)
  with assms tracks_added [of e ms m] show ?thesis
    by (simp add: notify_def registryStep_def tracks_def)
next
  case (ModelRemoved m)
  with assms tracks_removed [of e ms m] show ?thesis
    by (simp add: notify_def registryStep_def tracks_def)
qed

lemma tracks_notifyAll:
  "tracks e ms \<Longrightarrow> addsOnlyAbsent ms ns \<Longrightarrow>
   tracks (foldl notify e ns) (foldl registryStep ms ns)"
proof (induction ns arbitrary: e ms)
  case Nil
  then show ?case by simp
next
  case (Cons n ns)
  from Cons.prems have "tracks (notify e n) (registryStep ms n)"
    by (intro tracks_notify) simp_all
  moreover from Cons.prems have "addsOnlyAbsent (registryStep ms n) ns" by simp
  ultimately show ?case using Cons.IH by simp
qed

lemma filter_key_length:
  "distinct (map fst al) \<Longrightarrow>
   length (filter (\<lambda>p. fst p = k) al) = (if k \<in> fst ` set al then 1 else 0)"
  by (induction al) (auto simp: image_iff)

lemma tracks_listeners:
  assumes "tracks e ms"
  shows "length (listenersOf e m) = (if m \<in> ms then 1 else 0)"
proof -
  have "listenersOf e m = map snd (filter (\<lambda>p. fst p = m) (modelListener e))"
    using assms by (simp add: tracks_def listenersOf_def filter_map comp_def)
  with assms filter_key_length [of "modelListener e" m] show ?thesis
    by (simp add: tracks_def)
qed

lemma tracks_dispose:
  assumes "tracks e ms"
  shows "subscriptions (emitter_dispose e) = []"
  using assms by (simp add: tracks_def emitter_dispose_def filter_empty_conv)

lemma tracks_emitterAfter: "addsOnlyAbsent {} ns \<Longrightarrow> tracks (emitterAfter ns) (registered ns)"
  using tracks_notifyAll [OF tracks_new]
  by (simp add: emitterAfter_def notifyAll_def registered_def)

lemmas ex_emitter_simps =
  emitterAfter_def notifyAll_def notify_def onModelAdded_def onModelRemoved_def
  new_ModelChangeEventEmitter_def listenersOf_def registered_def registryStep_def
  ex_model_def ex_model2_def ex_resource_def emitter_dispose_def firings_def

text \<open>
  C9 as stated speaks of any sequence of notifications. When a model is announced as added
  twice, the first listener is overwritten in the map and stays attached: the model has two
  listeners, and one of them is still attached after the model has been removed.
\<close>

theorem emitter_double_add_counterexample:
  "ex_model \<in> registered [ModelAdded ex_model, ModelAdded ex_model]
   \<and> listenersOf (emitterAfter [ModelAdded ex_model, ModelAdded ex_model]) ex_model = [0, 1]
   \<and> ex_model \<notin> registered [ModelAdded ex_model, ModelAdded ex_model, ModelRemoved ex_model]
   \<and> listenersOf
        (emitterAfter [ModelAdded ex_model, ModelAdded ex_model, ModelRemoved ex_model]) ex_model
       = [0]"
  by (simp add: ex_emitter_simps)

text \<open>
  C9, amended. After any sequence of model-added and model-removed notifications in which
  no model is announced as added while it is in the registry, there is exactly one
  content-change listener on each model in the registry and none on any other model, and
  the map holds exactly the models in the registry. Removing a model leaves no listener on
  it and no entry for it. Disposing the emitter leaves no listener attached at all; the
  unified event does not fire any more, and further notifications change nothing.
\<close>

theorem emitter_one_listener_per_model:
  assumes "addsOnlyAbsent {} ns"
  shows "(\<forall>m. length (listenersOf (emitterAfter ns) m) = (if m \<in> registered ns then 1 else 0))
         \<and> fst ` set (modelListener (emitterAfter ns)) = registered ns
         \<and> (\<forall>m. listenersOf (notify (emitterAfter ns) (ModelRemoved m)) m = []
                \<and> map_of (modelListener (notify (emitterAfter ns) (ModelRemoved m))) m = None)
         \<and> subscriptions (emitter_dispose (emitterAfter ns)) = []
         \<and> (\<forall>m. firings (emitter_dispose (emitterAfter ns)) m = 0)
         \<and> (\<forall>n. notify (emitter_dispose (emitterAfter ns)) n = emitter_dispose (emitterAfter ns))"
proof -
  have t: "tracks (emitterAfter ns) (registered ns)"
    using assms by (rule tracks_emitterAfter)
  have one: "\<forall>m. length (listenersOf (emitterAfter ns) m) = (if m \<in> registered ns then 1 else 0)"
    using tracks_listeners [OF t] by simp
  have keys: "fst ` set (modelListener (emitterAfter ns)) = registered ns"
    using t by (simp add: tracks_def)
  have removed: "listenersOf (notify (emitterAfter ns) (ModelRemoved m)) m = []
                \<and> map_of (modelListener (notify (emitterAfter ns) (ModelRemoved m))) m = None" for m
  proof -
    have r: "tracks (notify (emitterAfter ns) (ModelRemoved m)) (registered ns - {m})"
      using tracks_notify [OF t, of "ModelRemoved m"] by (simp add: registryStep_def)
    from tracks_listeners [OF r, of m]
    have "listenersOf (notify (emitterAfter ns) (ModelRemoved m)) m = []" by simp
    moreover from r have "m \<notin> fst ` set (modelListener (notify (emitterAfter ns) (ModelRemoved m)))"
      by (simp add: tracks_def)
    ultimately show ?thesis by (simp add: map_of_eq_None_iff)
  qed
  have none: "subscriptions (emitter_dispose (emitterAfter ns)) = []"
    using t by (rule tracks_dispose)
  have quiet: "\<forall>m. firings (emitter_dispose (emitterAfter ns)) m = 0"
    by (simp add: firings_def emitter_dispose_def)
  have deaf: "\<forall>n. notify (emitter_dispose (emitterAfter ns)) n = emitter_dispose (emitterAfter ns)"
    by (simp add: notify_def emitter_dispose_def)
  from one keys removed none quiet deaf show ?thesis by blast
qed

text \<open>C9 after adding two models and removing the first.\<close>

theorem emitter_one_listener_per_model_witness:
  "addsOnlyAbsent {} [ModelAdded ex_model, ModelAdded ex_model2, ModelRemoved ex_model]
   \<and> registered [ModelAdded ex_model, ModelAdded ex_model2, ModelRemoved ex_model] = {ex_model2}
   \<and> listenersOf
        (emitterAfter [ModelAdded ex_model, ModelAdded ex_model2, ModelRemoved ex_model]) ex_model2
       = [1]
   \<and> listenersOf
        (emitterAfter [ModelAdded ex_model, ModelAdded ex_model2, ModelRemoved ex_model]) ex_model
       = []
   \<and> subscriptions (emitter_dispose
        (emitterAfter [ModelAdded ex_model, ModelAdded ex_model2, ModelRemoved ex_model])) = []"
proof -
  have h: "addsOnlyAbsent {} [ModelAdded ex_model, ModelAdded ex_model2, ModelRemoved ex_model]"
    by (simp add: registryStep_def ex_model_def ex_model2_def)
  have r: "registered [ModelAdded ex_model, ModelAdded ex_model2, ModelRemoved ex_model]
             = {ex_model2}"
    by (auto simp: registered_def registryStep_def ex_model_def ex_model2_def)
  have l: "listenersOf
        (emitterAfter [ModelAdded ex_model, ModelAdded ex_model2, ModelRemoved ex_model]) ex_model2
       = [1]
       \<and> listenersOf
        (emitterAfter [ModelAdded ex_model, ModelAdded ex_model2, ModelRemoved ex_model]) ex_model
       = []"
    by (simp add: ex_emitter_simps)
  show ?thesis
    using h r l emitter_one_listener_per_model [OF h] by simp
qed

subsection \<open>Dirty propagation\<close>

lemma listener_funpow:
  "((\<lambda>s. onDidChangeContent_listener s m) ^^ k) svc =
     (if modelSaver svc (uri_scheme (uri m)) \<noteq> None
      then svc\<lparr>effects := effects svc @ replicate k (Fire (StateChangeEvent Dirty (uri m)))\<rparr>
      else svc)"
proof (induction k)
  case 0
  show ?case by simp
next
  case (Suc k)
  then show ?case
    by (simp add: onDidChangeContent_listener_def replicate_append_same)
qed

lemma modelContentChanged_effects:
  "modelContentChanged svc m =
     (if modelSaver svc (uri_scheme (uri m)) \<noteq> None
      then svc\<lparr>effects := effects svc
                  @ replicate (firings (onDidChangeModelContent svc) m)
                      (Fire (StateChangeEvent Dirty (uri m)))\<rparr>
      else svc)"
  by (simp add: modelContentChanged_def listener_funpow)

text \<open>
  C7. Each time the unified content-change event fires for a model whose scheme has a
  saver, the service fires one \<open>dirty\<close> event for the resource of the model, so two firings
  in a row give two \<open>dirty\<close> events; without a saver for the scheme nothing is fired. For a
  model with one listener attached and an emitter that is not disposed, every change of
  the content is one such firing. In general a change of the content gives as many
  \<open>dirty\<close> events as the unified event fires for it, none of them suppressed.
\<close>

theorem dirty_propagation:
  "(modelSaver svc (uri_scheme (uri m)) = Some saver \<longrightarrow>
      onDidChangeContent_listener svc m
        = svc\<lparr>effects := effects svc @ [Fire (StateChangeEvent Dirty (uri m))]\<rparr>
      \<and> onDidChangeContent_listener (onDidChangeContent_listener svc m) m
        = svc\<lparr>effects := effects svc @ [Fire (StateChangeEvent Dirty (uri m)),
                                          Fire (StateChangeEvent Dirty (uri m))]\<rparr>)
   \<and> (modelSaver svc (uri_scheme (uri m)) = None \<longrightarrow> onDidChangeContent_listener svc m = svc)
   \<and> (listenersOf (onDidChangeModelContent svc) m = [l]
        \<and> \<not> disposed (onDidChangeModelContent svc) \<longrightarrow>
        modelContentChanged svc m = onDidChangeContent_listener svc m
        \<and> modelContentChanged (modelContentChanged svc m) m
            = onDidChangeContent_listener (onDidChangeContent_listener svc m) m)
   \<and> modelContentChanged svc m =
        (if modelSaver svc (uri_scheme (uri m)) \<noteq> None
         then svc\<lparr>effects := effects svc
                     @ replicate (firings (onDidChangeModelContent svc) m)
                         (Fire (StateChangeEvent Dirty (uri m)))\<rparr>
         else svc)"
proof -
  have "modelContentChanged svc m =
        (if modelSaver svc (uri_scheme (uri m)) \<noteq> None
         then svc\<lparr>effects := effects svc
                     @ replicate (firings (onDidChangeModelContent svc) m)
                         (Fire (StateChangeEvent Dirty (uri m)))\<rparr>
         else svc)"
    by (rule modelContentChanged_effects)
  then show ?thesis
    by (simp add: modelContentChanged_def firings_def onDidChangeContent_listener_def)
qed

lemmas ex_service_simps =
  ex_service_tracking_def modelServiceNotifies_def ex_service_saver_def ex_service_def
  registerTextModelSaver_def new_TextModelResolverService_def new_ModelChangeEventEmitter_def
  notify_def onModelAdded_def listenersOf_def ex_model_def ex_resource_def

text \<open>C7 on the example service after the model has been added, with and without a saver
  for \<open>demo\<close>.\<close>

theorem dirty_propagation_witness:
  "modelSaver (ex_service_tracking (ex_service_saver 1)) (uri_scheme (uri ex_model)) = Some 1
   \<and> listenersOf (onDidChangeModelContent (ex_service_tracking (ex_service_saver 1))) ex_model = [0]
   \<and> \<not> disposed (onDidChangeModelContent (ex_service_tracking (ex_service_saver 1)))
   \<and> effects (ex_service_tracking (ex_service_saver 1)) = []
   \<and> modelContentChanged
         (modelContentChanged (ex_service_tracking (ex_service_saver 1)) ex_model) ex_model
       = (ex_service_tracking (ex_service_saver 1))
           \<lparr>effects := effects (ex_service_tracking (ex_service_saver 1))
              @ [Fire (StateChangeEvent Dirty (uri ex_model)),
                 Fire (StateChangeEvent Dirty (uri ex_model))]\<rparr>
   \<and> modelSaver (ex_service_tracking ex_service) (uri_scheme (uri ex_model)) = None
   \<and> listenersOf (onDidChangeModelContent (ex_service_tracking ex_service)) ex_model = [0]
   \<and> \<not> disposed (onDidChangeModelContent (ex_service_tracking ex_service))
   \<and> modelContentChanged (ex_service_tracking ex_service) ex_model
       = ex_service_tracking ex_service"
proof -
  have a: "modelSaver (ex_service_tracking (ex_service_saver 1)) (uri_scheme (uri ex_model)) = Some 1"
    and b: "listenersOf (onDidChangeModelContent (ex_service_tracking (ex_service_saver 1))) ex_model
              = [0]"
    and c: "\<not> disposed (onDidChangeModelContent (ex_service_tracking (ex_service_saver 1)))"
    and d: "effects (ex_service_tracking (ex_service_saver 1)) = []"
    by (simp_all add: ex_service_simps)
  have e: "modelSaver (ex_service_tracking ex_service) (uri_scheme (uri ex_model)) = None"
    and f: "listenersOf (onDidChangeModelContent (ex_service_tracking ex_service)) ex_model = [0]"
    and g: "\<not> disposed (onDidChangeModelContent (ex_service_tracking ex_service))"
    by (simp_all add: ex_service_simps)
  note saver = dirty_propagation [of "ex_service_tracking (ex_service_saver 1)" ex_model 1 0]
  note nosaver = dirty_propagation [of "ex_service_tracking ex_service" ex_model 1 0]
  have two: "modelContentChanged
         (modelContentChanged (ex_service_tracking (ex_service_saver 1)) ex_model) ex_model
       = (ex_service_tracking (ex_service_saver 1))
           \<lparr>effects := effects (ex_service_tracking (ex_service_saver 1))
              @ [Fire (StateChangeEvent Dirty (uri ex_model)),
                 Fire (StateChangeEvent Dirty (uri ex_model))]\<rparr>"
    using saver a b c by metis
  have none: "modelContentChanged (ex_service_tracking ex_service) ex_model
       = ex_service_tracking ex_service"
    using nosaver e f g by metis
  from a b c d e f g two none show ?thesis by blast
qed

end
